theory Spec2Isabelle
  imports Main "HOL-Library.Word"
begin

section \<open>The public profile page \<open>src/app/u/[username]/page.tsx\<close>\<close>

subsection \<open>JavaScript strings\<close>

text \<open>
  A JavaScript string is a sequence of 16-bit code units. \<open>js\<close> embeds an ASCII
  literal, so that \<open>js ''@''\<close> is the one-unit string U+0040.
\<close>

type_synonym jsstring = "16 word list"

definition js :: "string \<Rightarrow> jsstring" where
  "js s = map of_char s"

text \<open>
  \<open>String.prototype.trim\<close> removes, at both ends, the code units that ECMAScript calls
  WhiteSpace (TAB, VT, FF, ZWNBSP and the Unicode space separators) or LineTerminator
  (LF, CR, LS, PS).
\<close>

definition isWhiteSpace :: "16 word \<Rightarrow> bool" where
  "isWhiteSpace c =
     (c = 0x0009 \<or> c = 0x000A \<or> c = 0x000B \<or> c = 0x000C \<or> c = 0x000D \<or> c = 0x0020
      \<or> c = 0x00A0 \<or> c = 0x1680 \<or> (0x2000 \<le> c \<and> c \<le> 0x200A) \<or> c = 0x2028
      \<or> c = 0x2029 \<or> c = 0x202F \<or> c = 0x205F \<or> c = 0x3000 \<or> c = 0xFEFF)"

definition trim :: "jsstring \<Rightarrow> jsstring" where
  "trim s = rev (dropWhile isWhiteSpace (rev (dropWhile isWhiteSpace s)))"

definition startsWith :: "jsstring \<Rightarrow> jsstring \<Rightarrow> bool" where
  "startsWith s p = (take (length p) s = p)"

text \<open>\<open>s.substring(i)\<close> and \<open>s.substring(i, j)\<close> for \<open>0 \<le> i \<le> j\<close>; both clamp to the length.\<close>

definition substring_from :: "nat \<Rightarrow> jsstring \<Rightarrow> jsstring" where
  "substring_from i s = drop i s"

definition substring :: "nat \<Rightarrow> nat \<Rightarrow> jsstring \<Rightarrow> jsstring" where
  "substring i j s = take (j - i) (drop i s)"

subsection \<open>Normalising the route parameter (lines 28-30)\<close>

definition cleanUsername :: "jsstring \<Rightarrow> jsstring" where
  "cleanUsername params_username =
     (if startsWith params_username (js ''@'')
      then trim (substring_from 1 params_username)
      else trim params_username)"

subsection \<open>Values that may be null or undefined\<close>

text \<open>
  The \<open>data\<close> member of a client response is a value, \<open>null\<close> or \<open>undefined\<close>.
  \<open>falsy\<close> is the test \<open>!x\<close> on a row object or a list (objects and arrays are always
  truthy, \<open>null\<close> and \<open>undefined\<close> never).
\<close>

datatype 'a js_maybe = Undefined | Null | Value 'a

definition falsy :: "'a js_maybe \<Rightarrow> bool" where
  "falsy x = (case x of Value _ \<Rightarrow> False | _ \<Rightarrow> True)"

text \<open>
  A text column read from a row is a string or \<open>null\<close> (\<open>None\<close>). \<open>truthy\<close> is the
  JavaScript truth value of such a field: \<open>null\<close> and the empty string are false.
\<close>

definition truthy :: "jsstring option \<Rightarrow> bool" where
  "truthy x = (case x of None \<Rightarrow> False | Some s \<Rightarrow> s \<noteq> [])"

text \<open>\<open>a || b\<close> on two such fields, and \<open>a || ""\<close>.\<close>

definition js_or :: "jsstring option \<Rightarrow> jsstring option \<Rightarrow> jsstring option" where
  "js_or a b = (if truthy a then a else b)"

definition js_or_str :: "jsstring option \<Rightarrow> jsstring \<Rightarrow> jsstring" where
  "js_or_str a d = (case a of None \<Rightarrow> d | Some s \<Rightarrow> if s \<noteq> [] then s else d)"

text \<open>The text React shows for a child expression \<open>{x}\<close>: nothing for \<open>null\<close>.\<close>

definition child_text :: "jsstring option \<Rightarrow> jsstring" where
  "child_text x = (case x of None \<Rightarrow> [] | Some s \<Rightarrow> s)"

subsection \<open>Rows\<close>

text \<open>
  Modelled from the spec: the table schemas are not in the source; section 3 of the
  specification lists the attributes of a user profile, a resource and a study group.
  Text attributes are nullable, timestamps are numbers.
\<close>

type_synonym ident = nat

record user_profile =
  profile_id :: ident
  username :: "jsstring option"
  full_name :: "jsstring option"
  avatar_url :: "jsstring option"
  university :: "jsstring option"
  major :: "jsstring option"
  bio :: "jsstring option"

record resource =
  resource_id :: ident
  author_id :: ident
  is_approved :: bool
  resource_created_at :: nat

record study_group =
  group_id :: ident
  created_by :: ident
  is_private :: bool
  group_created_at :: nat

subsection \<open>The query builder\<close>

text \<open>
  A call chain \<open>supabase.from(t).select(c).eq(..)...\<close> builds a description of a request,
  which is sent when the chain is awaited. The builder of the client library offers
  reading and writing verbs; the chain records which one was called.
\<close>

datatype jsval = JNull | JStr jsstring | JBool bool | JNum nat

datatype filter_clause = EqF string jsval | ILikeF string jsstring

datatype verb = SELECT string | INSERT | UPDATE | UPSERT | DELETE

datatype shape = ManyRows | MaybeSingle

record query =
  q_table :: string
  q_verb :: "verb option"
  q_filters :: "filter_clause list"
  q_order :: "(string \<times> bool) option"
  q_limit :: "nat option"
  q_shape :: shape

definition from_table :: "string \<Rightarrow> query" where
  "from_table t = \<lparr>q_table = t, q_verb = None, q_filters = [], q_order = None,
                   q_limit = None, q_shape = ManyRows\<rparr>"

definition select :: "string \<Rightarrow> query \<Rightarrow> query" where
  "select cols q = q\<lparr>q_verb := Some (SELECT cols)\<rparr>"

definition eq_filter :: "string \<Rightarrow> jsval \<Rightarrow> query \<Rightarrow> query" where
  "eq_filter col v q = q\<lparr>q_filters := q_filters q @ [EqF col v]\<rparr>"

definition ilike :: "string \<Rightarrow> jsstring \<Rightarrow> query \<Rightarrow> query" where
  "ilike col pat q = q\<lparr>q_filters := q_filters q @ [ILikeF col pat]\<rparr>"

definition order_by :: "string \<Rightarrow> bool \<Rightarrow> query \<Rightarrow> query" where
  "order_by col ascending q = q\<lparr>q_order := Some (col, ascending)\<rparr>"

definition limit :: "nat \<Rightarrow> query \<Rightarrow> query" where
  "limit n q = q\<lparr>q_limit := Some n\<rparr>"

definition maybeSingle :: "query \<Rightarrow> query" where
  "maybeSingle q = q\<lparr>q_shape := MaybeSingle\<rparr>"

subsection \<open>The client\<close>

text \<open>
  \<open>createClient\<close> is imported from \<open>@/utils/supabase/server\<close>. The page sees the
  client through the session it reports and the \<open>{data, error}\<close> response it gives to
  each awaited query, so the client is a parameter of the page: one answer function per
  table the page reads.
\<close>

datatype session = Session jsstring

datatype query_error = QueryError string

record 'a response =
  data :: "'a js_maybe"
  error :: "query_error option"

record client =
  auth_getSession :: "session option"
  run_profile :: "query \<Rightarrow> user_profile response"
  run_resources :: "query \<Rightarrow> resource list response"
  run_study_groups :: "query \<Rightarrow> study_group list response"

text \<open>What the page asked of the client, in order.\<close>

datatype call = GetSession | Run query

subsection \<open>The rendered page\<close>

record header =
  avatar_src :: "jsstring option"
  avatar_alt :: "jsstring option"
  avatar_fallback :: jsstring
  display_name :: "jsstring option"
  handle :: jsstring
  university_line :: "(jsstring \<times> jsstring) option"
  major_line :: "(jsstring \<times> jsstring) option"
  bio_line :: "jsstring option"

datatype 'a tab_content = Cards "'a list" | EmptyNotice jsstring

record profile_view =
  header :: header
  resources_tab :: "resource tab_content"
  studyGroups_tab :: "study_group tab_content"

datatype page = Redirect jsstring | UserNotFound | ProfileView profile_view

definition shown :: "'a tab_content \<Rightarrow> 'a list" where
  "shown t = (case t of Cards rows \<Rightarrow> rows | EmptyNotice _ \<Rightarrow> [])"

subsection \<open>The four queries of the page\<close>

text \<open>Lines 33-37, 43-47, 62-68 and 71-77: the chains as written.\<close>

definition exactQuery :: "jsstring \<Rightarrow> query" where
  "exactQuery cleanUsername' =
     maybeSingle (eq_filter ''username'' (JStr cleanUsername')
       (select ''*'' (from_table ''user_profiles'')))"

definition caseInsensitiveQuery :: "jsstring \<Rightarrow> query" where
  "caseInsensitiveQuery cleanUsername' =
     maybeSingle (ilike ''username'' cleanUsername'
       (select ''*'' (from_table ''user_profiles'')))"

definition resourcesQuery :: "ident \<Rightarrow> query" where
  "resourcesQuery pid =
     limit 3 (order_by ''created_at'' False (eq_filter ''is_approved'' (JBool True)
       (eq_filter ''author_id'' (JNum pid) (select ''*'' (from_table ''resources'')))))"

definition studyGroupsQuery :: "ident \<Rightarrow> query" where
  "studyGroupsQuery pid =
     limit 3 (order_by ''created_at'' False (eq_filter ''is_private'' (JBool False)
       (eq_filter ''created_by'' (JNum pid) (select ''*'' (from_table ''study_groups'')))))"

subsection \<open>Resolving the profile (lines 32-50)\<close>

definition finalProfileData :: "client \<Rightarrow> jsstring \<Rightarrow> user_profile js_maybe \<times> call list" where
  "finalProfileData supabase cleanUsername' =
     (let profileData = data (run_profile supabase (exactQuery cleanUsername'))
      in if falsy profileData
         then (let caseInsensitiveData =
                     data (run_profile supabase (caseInsensitiveQuery cleanUsername'))
               in (caseInsensitiveData,
                   [Run (exactQuery cleanUsername'), Run (caseInsensitiveQuery cleanUsername')]))
         else (profileData, [Run (exactQuery cleanUsername')]))"

subsection \<open>Rendering (lines 79-178)\<close>

text \<open>
  \<open>toUpperCase\<close> is the runtime's \<open>String.prototype.toUpperCase\<close>, a parameter here:
  its Unicode case mapping is not part of the page.
\<close>

definition conditional_line :: "jsstring \<Rightarrow> jsstring option \<Rightarrow> (jsstring \<times> jsstring) option" where
  "conditional_line label field =
     (case field of None \<Rightarrow> None
      | Some s \<Rightarrow> if s \<noteq> [] then Some (label, s) else None)"

definition profile_header :: "(jsstring \<Rightarrow> jsstring) \<Rightarrow> user_profile \<Rightarrow> header" where
  "profile_header toUpperCase p =
     \<lparr>avatar_src = js_or (avatar_url p) None,
      avatar_alt = js_or (full_name p) (username p),
      avatar_fallback =
        toUpperCase (substring 0 2 (js_or_str (js_or (full_name p) (username p)) [])),
      display_name = js_or (full_name p) (username p),
      handle = js ''@'' @ child_text (username p),
      university_line = conditional_line (js ''University:'') (university p),
      major_line = conditional_line (js ''Major:'') (major p),
      bio_line = (case bio p of None \<Rightarrow> None | Some s \<Rightarrow> if s \<noteq> [] then Some s else None)\<rparr>"

text \<open>
  A destructuring default (\<open>data: resources = []\<close>) replaces \<open>undefined\<close> only. The tab
  shows cards when \<open>rows && rows.length > 0\<close>, the notice otherwise.
\<close>

definition with_default :: "'a \<Rightarrow> 'a js_maybe \<Rightarrow> 'a js_maybe" where
  "with_default d x = (case x of Undefined \<Rightarrow> Value d | _ \<Rightarrow> x)"

definition tab :: "jsstring \<Rightarrow> 'a list js_maybe \<Rightarrow> 'a tab_content" where
  "tab notice rows =
     (case rows of
        Value rs \<Rightarrow> if length rs > 0 then Cards rs else EmptyNotice notice
      | _ \<Rightarrow> EmptyNotice notice)"

subsection \<open>The page (lines 9-179)\<close>

definition UserProfilePage ::
    "(jsstring \<Rightarrow> jsstring) \<Rightarrow> client \<Rightarrow> jsstring \<Rightarrow> page \<times> call list" where
  "UserProfilePage toUpperCase supabase params_username =
     (case auth_getSession supabase of
        Some session \<Rightarrow>
          (Redirect (js ''/dashboard/public-profile/'' @ params_username), [GetSession])
      | None \<Rightarrow>
          (case finalProfileData supabase (cleanUsername params_username) of
             (Value p, lookups) \<Rightarrow>
               (let resources = with_default []
                      (data (run_resources supabase (resourcesQuery (profile_id p))));
                    studyGroups = with_default []
                      (data (run_study_groups supabase (studyGroupsQuery (profile_id p))))
                in (ProfileView
                      \<lparr>header = profile_header toUpperCase p,
                       resources_tab = tab (js ''No public resources available'') resources,
                       studyGroups_tab =
                         tab (js ''No public study groups available'') studyGroups\<rparr>,
                    GetSession # lookups @ [Run (resourcesQuery (profile_id p)),
                                            Run (studyGroupsQuery (profile_id p))]))
           | (_, lookups) \<Rightarrow> (UserNotFound, GetSession # lookups)))"

definition is_read :: "call \<Rightarrow> bool" where
  "is_read c =
     (case c of GetSession \<Rightarrow> True
      | Run q \<Rightarrow> (case q_verb q of Some (SELECT _) \<Rightarrow> True | _ \<Rightarrow> False))"

subsection \<open>A client over stored tables\<close>

text \<open>
  Modelled from the spec: the row-query client is not in the source. Section 6 of the
  specification gives its operations over the named collections: an exact-equality
  filter, a case-insensitive equality filter, a boolean-equality filter, a descending
  order on a timestamp field, a row-count limit, and the result shapes "zero or one row"
  and "a list". A request that is not a read of a known table and known columns in the
  expected shape is answered with an error and no data, and so is a zero-or-one-row
  request that matches several rows. The case folding of the store is the parameter
  \<open>lower\<close>.
\<close>

record database =
  user_profiles :: "user_profile list"
  resources :: "resource list"
  study_groups :: "study_group list"

definition text_column :: "jsstring option \<Rightarrow> jsval" where
  "text_column x = (case x of None \<Rightarrow> JNull | Some s \<Rightarrow> JStr s)"

definition profile_column :: "user_profile \<Rightarrow> string \<Rightarrow> jsval option" where
  "profile_column p =
     map_of [(''id'', JNum (profile_id p)),
             (''username'', text_column (username p)),
             (''full_name'', text_column (full_name p)),
             (''avatar_url'', text_column (avatar_url p)),
             (''university'', text_column (university p)),
             (''major'', text_column (major p)),
             (''bio'', text_column (bio p))]"

definition resource_column :: "resource \<Rightarrow> string \<Rightarrow> jsval option" where
  "resource_column r =
     map_of [(''id'', JNum (resource_id r)),
             (''author_id'', JNum (author_id r)),
             (''is_approved'', JBool (is_approved r)),
             (''created_at'', JNum (resource_created_at r))]"

definition study_group_column :: "study_group \<Rightarrow> string \<Rightarrow> jsval option" where
  "study_group_column g =
     map_of [(''id'', JNum (group_id g)),
             (''created_by'', JNum (created_by g)),
             (''is_private'', JBool (is_private g)),
             (''created_at'', JNum (group_created_at g))]"

fun holds :: "(16 word \<Rightarrow> 16 word) \<Rightarrow> (string \<Rightarrow> jsval option) \<Rightarrow> filter_clause \<Rightarrow> bool" where
  "holds lower row (EqF c v) = (v \<noteq> JNull \<and> row c = Some v)"
| "holds lower row (ILikeF c pat) =
     (case row c of Some (JStr s) \<Rightarrow> map lower s = map lower pat | _ \<Rightarrow> False)"

definition order_key :: "('r \<Rightarrow> string \<Rightarrow> jsval option) \<Rightarrow> string \<Rightarrow> 'r \<Rightarrow> nat" where
  "order_key col c r = (case col r c of Some (JNum n) \<Rightarrow> n | _ \<Rightarrow> 0)"

definition select_rows ::
    "(16 word \<Rightarrow> 16 word) \<Rightarrow> ('r \<Rightarrow> string \<Rightarrow> jsval option) \<Rightarrow> query \<Rightarrow> 'r list \<Rightarrow> 'r list" where
  "select_rows lower col q rows =
     (let matching = filter (\<lambda>r. list_all (holds lower (col r)) (q_filters q)) rows;
          ordered = (case q_order q of
                       None \<Rightarrow> matching
                     | Some (c, ascending) \<Rightarrow>
                         if ascending then sort_key (order_key col c) matching
                         else rev (sort_key (order_key col c) matching))
      in case q_limit q of None \<Rightarrow> ordered | Some n \<Rightarrow> take n ordered)"

fun clause_column :: "filter_clause \<Rightarrow> string" where
  "clause_column (EqF c v) = c"
| "clause_column (ILikeF c pat) = c"

definition well_formed :: "string \<Rightarrow> string list \<Rightarrow> shape \<Rightarrow> query \<Rightarrow> bool" where
  "well_formed t cols sh q =
     (q_table q = t \<and> q_verb q = Some (SELECT ''*'') \<and> q_shape q = sh
      \<and> list_all (\<lambda>f. clause_column f \<in> set cols) (q_filters q)
      \<and> (case q_order q of None \<Rightarrow> True | Some (c, ascending) \<Rightarrow> c \<in> set cols))"

definition failed :: "'a response" where
  "failed = \<lparr>data = Null, error = Some (QueryError ''request failed'')\<rparr>"

definition many_rows :: "'r list \<Rightarrow> 'r list response" where
  "many_rows rows = \<lparr>data = Value rows, error = None\<rparr>"

definition zero_or_one :: "'r list \<Rightarrow> 'r response" where
  "zero_or_one rows =
     (case rows of
        [] \<Rightarrow> \<lparr>data = Null, error = None\<rparr>
      | [r] \<Rightarrow> \<lparr>data = Value r, error = None\<rparr>
      | _ \<Rightarrow> failed)"

definition db_client :: "(16 word \<Rightarrow> 16 word) \<Rightarrow> session option \<Rightarrow> database \<Rightarrow> client" where
  "db_client lower s db =
     \<lparr>auth_getSession = s,
      run_profile = (\<lambda>q.
        if well_formed ''user_profiles''
             [''id'', ''username'', ''full_name'', ''avatar_url'', ''university'', ''major'',
              ''bio''] MaybeSingle q
        then zero_or_one (select_rows lower profile_column q (user_profiles db))
        else failed),
      run_resources = (\<lambda>q.
        if well_formed ''resources'' [''id'', ''author_id'', ''is_approved'', ''created_at'']
             ManyRows q
        then many_rows (select_rows lower resource_column q (resources db))
        else failed),
      run_study_groups = (\<lambda>q.
        if well_formed ''study_groups'' [''id'', ''created_by'', ''is_private'', ''created_at'']
             ManyRows q
        then many_rows (select_rows lower study_group_column q (study_groups db))
        else failed)\<rparr>"


text \<open>The ASCII case mappings, for concrete runs.\<close>

definition ascii_lower :: "16 word \<Rightarrow> 16 word" where
  "ascii_lower c = (if 0x41 \<le> c \<and> c \<le> 0x5A then c + 0x20 else c)"

definition ascii_upper :: "16 word \<Rightarrow> 16 word" where
  "ascii_upper c = (if 0x61 \<le> c \<and> c \<le> 0x7A then c - 0x20 else c)"

subsection \<open>Example data\<close>

definition jane :: user_profile where
  "jane = \<lparr>profile_id = 1, username = Some (js ''JaneDoe''), full_name = Some (js ''jane d''),
           avatar_url = None, university = Some (js ''MIT''), major = Some (js ''CS''),
           bio = Some (js ''hi'')\<rparr>"

definition bob :: user_profile where
  "bob = \<lparr>profile_id = 2, username = Some (js ''bob''), full_name = None, avatar_url = None,
          university = None, major = None, bio = Some []\<rparr>"

definition example_resources :: "resource list" where
  "example_resources =
     [\<lparr>resource_id = 1, author_id = 1, is_approved = True, resource_created_at = 10\<rparr>,
      \<lparr>resource_id = 2, author_id = 1, is_approved = True, resource_created_at = 40\<rparr>,
      \<lparr>resource_id = 3, author_id = 1, is_approved = False, resource_created_at = 50\<rparr>,
      \<lparr>resource_id = 4, author_id = 2, is_approved = True, resource_created_at = 60\<rparr>,
      \<lparr>resource_id = 5, author_id = 1, is_approved = True, resource_created_at = 20\<rparr>,
      \<lparr>resource_id = 6, author_id = 1, is_approved = True, resource_created_at = 30\<rparr>]"

definition example_groups :: "study_group list" where
  "example_groups =
     [\<lparr>group_id = 1, created_by = 1, is_private = False, group_created_at = 5\<rparr>,
      \<lparr>group_id = 2, created_by = 1, is_private = True, group_created_at = 9\<rparr>,
      \<lparr>group_id = 3, created_by = 1, is_private = False, group_created_at = 7\<rparr>,
      \<lparr>group_id = 4, created_by = 1, is_private = False, group_created_at = 2\<rparr>,
      \<lparr>group_id = 5, created_by = 1, is_private = False, group_created_at = 8\<rparr>]"

definition example_db :: database where
  "example_db =
     \<lparr>user_profiles = [jane, bob], resources = example_resources,
      study_groups = example_groups\<rparr>"

text \<open>
  The page for the request \<open>"@janedoe "\<close>, found by the case-insensitive lookup, and
  for the request \<open>"bob"\<close>, found by the exact lookup.
\<close>

definition jane_view :: profile_view where
  "jane_view =
     \<lparr>header = profile_header (map ascii_upper) jane,
      resources_tab = Cards
        [\<lparr>resource_id = 2, author_id = 1, is_approved = True, resource_created_at = 40\<rparr>,
         \<lparr>resource_id = 6, author_id = 1, is_approved = True, resource_created_at = 30\<rparr>,
         \<lparr>resource_id = 5, author_id = 1, is_approved = True, resource_created_at = 20\<rparr>],
      studyGroups_tab = Cards
        [\<lparr>group_id = 5, created_by = 1, is_private = False, group_created_at = 8\<rparr>,
         \<lparr>group_id = 3, created_by = 1, is_private = False, group_created_at = 7\<rparr>,
         \<lparr>group_id = 1, created_by = 1, is_private = False, group_created_at = 5\<rparr>]\<rparr>"

definition jane_calls :: "call list" where
  "jane_calls =
     [GetSession, Run (exactQuery (js ''janedoe'')), Run (caseInsensitiveQuery (js ''janedoe'')),
      Run (resourcesQuery 1), Run (studyGroupsQuery 1)]"

definition bob_view :: profile_view where
  "bob_view =
     \<lparr>header = profile_header (map ascii_upper) bob,
      resources_tab = Cards
        [\<lparr>resource_id = 4, author_id = 2, is_approved = True, resource_created_at = 60\<rparr>],
      studyGroups_tab = EmptyNotice (js ''No public study groups available'')\<rparr>"

definition bob_calls :: "call list" where
  "bob_calls =
     [GetSession, Run (exactQuery (js ''bob'')), Run (resourcesQuery 2), Run (studyGroupsQuery 2)]"



text \<open>A client whose every data query fails, and one whose every data query is empty.\<close>

definition failing_client :: client where
  "failing_client =
     \<lparr>auth_getSession = None, run_profile = (\<lambda>q. failed), run_resources = (\<lambda>q. failed),
      run_study_groups = (\<lambda>q. failed)\<rparr>"

definition empty_client :: client where
  "empty_client =
     \<lparr>auth_getSession = None,
      run_profile = (\<lambda>q. \<lparr>data = Null, error = None\<rparr>),
      run_resources = (\<lambda>q. \<lparr>data = Value [], error = None\<rparr>),
      run_study_groups = (\<lambda>q. \<lparr>data = Value [], error = None\<rparr>)\<rparr>"

subsection \<open>Responses that carry the same data\<close>

text \<open>
  Two answers to a zero-or-one-row request carry the same data when they hold the same
  row or both hold none; two answers to a list request, when they hold the same list or
  both hold no row at all. The \<open>error\<close> member is not compared.
\<close>

definition no_rows :: "'a list js_maybe \<Rightarrow> bool" where
  "no_rows d = (case d of Value rs \<Rightarrow> rs = [] | _ \<Rightarrow> True)"

definition same_row :: "'a js_maybe \<Rightarrow> 'a js_maybe \<Rightarrow> bool" where
  "same_row d d' = (d = d' \<or> (falsy d \<and> falsy d'))"

definition same_rows :: "'a list js_maybe \<Rightarrow> 'a list js_maybe \<Rightarrow> bool" where
  "same_rows d d' = (d = d' \<or> (no_rows d \<and> no_rows d'))"

section \<open>Properties\<close>

subsection \<open>Trimming\<close>

lemma trim_idem: "trim (trim s) = trim s"
proof -
  let ?t = "dropWhile isWhiteSpace s"
  let ?r = "dropWhile isWhiteSpace (rev ?t)"
  have a: "dropWhile isWhiteSpace (rev ?r) = rev ?r"
  proof (cases "?r = []")
    case True
    then have "rev ?r = []" by (simp only: rev_is_Nil_conv)
    then show ?thesis by (simp only: dropWhile.simps)
  next
    case False
    then have r: "?r \<noteq> []" .
    have t: "?t \<noteq> []"
    proof
      assume "?t = []"
      then have "?r = []" by (simp only: rev.simps dropWhile.simps)
      with r show False by simp
    qed
    have "hd ?t = hd (rev ?r)"
    proof -
      obtain ys where ys: "rev ?t = ys @ ?r"
        by (metis takeWhile_dropWhile_id)
      then have "?t = rev ?r @ rev ys"
        by (metis rev_append rev_rev_ident)
      then show ?thesis using r by (metis hd_append2 rev_is_Nil_conv)
    qed
    moreover have "\<not> isWhiteSpace (hd ?t)" using t by (rule hd_dropWhile)
    ultimately have "\<not> isWhiteSpace (hd (rev ?r))" by simp
    then show ?thesis using r by (cases "rev ?r") auto
  qed
  have b: "dropWhile isWhiteSpace ?r = ?r"
    by (simp add: dropWhile_idem)
  show ?thesis
    unfolding trim_def by (simp add: a b)
qed

lemma startsWith_at_Cons: "startsWith (js ''@'' @ u) (js ''@'')"
  by (simp add: startsWith_def js_def)

subsection \<open>C4: normalisation of a prefixed name\<close>

text \<open>
  C4, as stated, fails: for \<open>u = "@bob"\<close> the key of \<open>"@" + u\<close> is \<open>"@bob"\<close> (one @ is
  stripped), while the key of the trimmed \<open>u\<close> is \<open>"bob"\<close>.
\<close>

theorem cleanUsername_at_prefix_counterexample:
  "cleanUsername (js ''@'' @ js ''@bob'') \<noteq> cleanUsername (trim (js ''@bob''))"
  by (simp add: cleanUsername_def startsWith_def substring_from_def trim_def js_def
      isWhiteSpace_def)

text \<open>
  C4 (amended): for every username \<open>u\<close>, normalising \<open>"@" + u\<close> yields the trimmed \<open>u\<close>;
  this is the key obtained by normalising the trimmed \<open>u\<close> exactly when the trimmed \<open>u\<close>
  does not itself begin with @, since normalisation strips a single leading @ if present
  and then trims whitespace.
\<close>

theorem cleanUsername_at_prefix:
  "cleanUsername (js ''@'' @ u) = trim u
   \<and> ((cleanUsername (js ''@'' @ u) = cleanUsername (trim u))
        = (\<not> startsWith (trim u) (js ''@'')))
   \<and> cleanUsername u
       = trim (if startsWith u (js ''@'') then substring_from 1 u else u)"
proof -
  have k: "cleanUsername (js ''@'' @ u) = trim u"
    using startsWith_at_Cons [of u]
    by (simp add: cleanUsername_def substring_from_def js_def)
  have e: "(trim u = cleanUsername (trim u)) = (\<not> startsWith (trim u) (js ''@''))"
  proof (cases "startsWith (trim u) (js ''@'')")
    case False
    then show ?thesis by (simp add: cleanUsername_def trim_idem)
  next
    case True
    then obtain v where v: "trim u = 0x40 # v"
      by (cases "trim u") (auto simp: startsWith_def js_def)
    have "length (trim v) \<le> length v"
      by (simp add: trim_def) (metis length_dropWhile_le length_rev le_trans)
    moreover have "length (trim u) = Suc (length v)" using v by simp
    ultimately have "trim u \<noteq> trim v" by auto
    then show ?thesis using True v
      by (simp add: cleanUsername_def substring_from_def)
  qed
  show ?thesis using k e by (simp add: cleanUsername_def)
qed

theorem cleanUsername_at_prefix_witness:
  "cleanUsername (js ''@'' @ js '' bob '') = js ''bob''
   \<and> cleanUsername (js ''@'' @ js '' bob '') = cleanUsername (trim (js '' bob ''))
   \<and> \<not> startsWith (trim (js '' bob '')) (js ''@'')"
  using cleanUsername_at_prefix [of "js '' bob ''"]
  by (simp add: cleanUsername_def trim_def startsWith_def js_def isWhiteSpace_def)

subsection \<open>Control flow of the page\<close>

lemma finalProfileData_eq:
  "finalProfileData c k =
     (if falsy (data (run_profile c (exactQuery k)))
      then (data (run_profile c (caseInsensitiveQuery k)),
            [Run (exactQuery k), Run (caseInsensitiveQuery k)])
      else (data (run_profile c (exactQuery k)), [Run (exactQuery k)]))"
  by (simp add: finalProfileData_def Let_def)

lemma page_redirect:
  "auth_getSession c = Some s \<Longrightarrow>
   UserProfilePage up c u = (Redirect (js ''/dashboard/public-profile/'' @ u), [GetSession])"
  by (simp add: UserProfilePage_def)

lemma page_not_found:
  "auth_getSession c = None \<Longrightarrow> finalProfileData c (cleanUsername u) = (d, l) \<Longrightarrow> falsy d \<Longrightarrow>
   UserProfilePage up c u = (UserNotFound, GetSession # l)"
  by (cases d) (simp_all add: UserProfilePage_def falsy_def)

lemma page_profile:
  "auth_getSession c = None \<Longrightarrow> finalProfileData c (cleanUsername u) = (Value p, l) \<Longrightarrow>
   UserProfilePage up c u =
     (ProfileView
        \<lparr>header = profile_header up p,
         resources_tab = tab (js ''No public resources available'')
           (with_default [] (data (run_resources c (resourcesQuery (profile_id p))))),
         studyGroups_tab = tab (js ''No public study groups available'')
           (with_default [] (data (run_study_groups c (studyGroupsQuery (profile_id p)))))\<rparr>,
      GetSession # l @ [Run (resourcesQuery (profile_id p)), Run (studyGroupsQuery (profile_id p))])"
  by (simp add: UserProfilePage_def Let_def)

lemma page_profile_inv:
  assumes "UserProfilePage up c u = (ProfileView v, calls)"
  shows "\<exists>p l. auth_getSession c = None \<and> finalProfileData c (cleanUsername u) = (Value p, l)
     \<and> v = \<lparr>header = profile_header up p,
         resources_tab = tab (js ''No public resources available'')
           (with_default [] (data (run_resources c (resourcesQuery (profile_id p))))),
         studyGroups_tab = tab (js ''No public study groups available'')
           (with_default [] (data (run_study_groups c (studyGroupsQuery (profile_id p)))))\<rparr>
     \<and> calls = GetSession # l @ [Run (resourcesQuery (profile_id p)), Run (studyGroupsQuery (profile_id p))]"
proof (cases "auth_getSession c")
  case (Some s)
  then show ?thesis using assms page_redirect [OF Some, of up u] by simp
next
  case None
  obtain d l where dl: "finalProfileData c (cleanUsername u) = (d, l)"
    by (cases "finalProfileData c (cleanUsername u)")
  show ?thesis
  proof (cases d)
    case (Value p)
    then show ?thesis using assms page_profile [OF None, of u p l up] dl None by auto
  next
    case Undefined
    then have "falsy d" by (simp add: falsy_def)
    then show ?thesis using assms page_not_found [OF None dl, of up] by simp
  next
    case Null
    then have "falsy d" by (simp add: falsy_def)
    then show ?thesis using assms page_not_found [OF None dl, of up] by simp
  qed
qed

lemma query_verbs:
  "q_verb (exactQuery k) = Some (SELECT ''*'')"
  "q_verb (caseInsensitiveQuery k) = Some (SELECT ''*'')"
  "q_verb (resourcesQuery i) = Some (SELECT ''*'')"
  "q_verb (studyGroupsQuery i) = Some (SELECT ''*'')"
  by (simp_all add: exactQuery_def caseInsensitiveQuery_def resourcesQuery_def
      studyGroupsQuery_def maybeSingle_def eq_filter_def ilike_def select_def from_table_def
      order_by_def limit_def)

lemma query_tables:
  "q_table (exactQuery k) = ''user_profiles''"
  "q_table (caseInsensitiveQuery k) = ''user_profiles''"
  "q_table (resourcesQuery i) = ''resources''"
  "q_table (studyGroupsQuery i) = ''study_groups''"
  by (simp_all add: exactQuery_def caseInsensitiveQuery_def resourcesQuery_def
      studyGroupsQuery_def maybeSingle_def eq_filter_def ilike_def select_def from_table_def
      order_by_def limit_def)

subsection \<open>C1: a visitor with a session is redirected\<close>

text \<open>
  C1: whenever the auth provider reports a session, the page ends with a redirect to
  \<open>/dashboard/public-profile/\<close> followed by the raw username parameter, unchanged, and
  it has asked the client for the session only: no query is sent to the data store.
\<close>

theorem session_redirects:
  assumes "auth_getSession supabase = Some s"
  shows "UserProfilePage toUpperCase supabase params_username
           = (Redirect (js ''/dashboard/public-profile/'' @ params_username), [GetSession])
         \<and> (\<forall>q. Run q \<notin> set (snd (UserProfilePage toUpperCase supabase params_username)))"
  using page_redirect [OF assms] by simp

theorem session_redirects_witness:
  "auth_getSession (db_client ascii_lower (Some (Session (js ''token''))) example_db)
     = Some (Session (js ''token''))
   \<and> UserProfilePage (map ascii_upper)
        (db_client ascii_lower (Some (Session (js ''token''))) example_db) (js ''@Jane '')
     = (Redirect (js ''/dashboard/public-profile/@Jane ''), [GetSession])"
  using session_redirects [of "db_client ascii_lower (Some (Session (js ''token''))) example_db"
      "Session (js ''token'')" "map ascii_upper" "js ''@Jane ''"]
  by (simp add: db_client_def js_def)

subsection \<open>C3: no profile row, no further query\<close>

text \<open>
  C3: with no session, when neither the exact lookup nor the case-insensitive lookup
  gives a row, the page is the static "User Not Found" view and the only queries sent are
  the two profile lookups: none on resources, none on study groups.
\<close>

theorem not_found_stops:
  assumes "auth_getSession supabase = None"
    and "falsy (data (run_profile supabase (exactQuery (cleanUsername params_username))))"
    and "falsy (data (run_profile supabase (caseInsensitiveQuery (cleanUsername params_username))))"
  shows "UserProfilePage toUpperCase supabase params_username
           = (UserNotFound,
              [GetSession, Run (exactQuery (cleanUsername params_username)),
               Run (caseInsensitiveQuery (cleanUsername params_username))])
         \<and> (\<forall>q. Run q \<in> set (snd (UserProfilePage toUpperCase supabase params_username))
                \<longrightarrow> q_table q = ''user_profiles'')"
proof -
  have "finalProfileData supabase (cleanUsername params_username)
        = (data (run_profile supabase (caseInsensitiveQuery (cleanUsername params_username))),
            [Run (exactQuery (cleanUsername params_username)),
             Run (caseInsensitiveQuery (cleanUsername params_username))])"
    using assms(2) by (simp add: finalProfileData_eq)
  from page_not_found [OF assms(1) this assms(3)]
  show ?thesis by (auto simp: query_tables)
qed

theorem not_found_stops_witness:
  "UserProfilePage (map ascii_upper) (db_client ascii_lower None example_db) (js ''@carol'')
     = (UserNotFound,
        [GetSession, Run (exactQuery (js ''carol'')), Run (caseInsensitiveQuery (js ''carol''))])"
proof -
  let ?c = "db_client ascii_lower None example_db"
  have k: "cleanUsername (js ''@carol'') = js ''carol''"
    by (simp add: cleanUsername_def startsWith_def substring_from_def trim_def js_def
        isWhiteSpace_def)
  have a: "auth_getSession ?c = None" by (simp add: db_client_def)
  have b: "falsy (data (run_profile ?c (exactQuery (cleanUsername (js ''@carol'')))))"
    unfolding k
    by (simp add: db_client_def example_db_def jane_def bob_def exactQuery_def maybeSingle_def
        eq_filter_def select_def from_table_def well_formed_def select_rows_def
        zero_or_one_def profile_column_def text_column_def falsy_def js_def)
  have c: "falsy (data (run_profile ?c (caseInsensitiveQuery (cleanUsername (js ''@carol'')))))"
    unfolding k
    by (simp add: db_client_def example_db_def jane_def bob_def caseInsensitiveQuery_def maybeSingle_def
        ilike_def select_def from_table_def well_formed_def select_rows_def
        zero_or_one_def profile_column_def text_column_def falsy_def js_def ascii_lower_def)
  show ?thesis using not_found_stops [OF a b c, of "map ascii_upper"] by (simp add: k)
qed

subsection \<open>C9: the page only reads\<close>

text \<open>
  C9: for every username, session state and client, every request the page makes is the
  session check or a \<open>select\<close>: no insert, update, upsert or delete is sent on any path.
\<close>

theorem only_reads:
  "list_all is_read (snd (UserProfilePage toUpperCase supabase params_username))"
proof (cases "auth_getSession supabase")
  case (Some s)
  then show ?thesis by (simp add: page_redirect is_read_def)
next
  case None
  let ?k = "cleanUsername params_username"
  have l: "list_all is_read (snd (finalProfileData supabase ?k))"
    by (simp add: finalProfileData_eq is_read_def query_verbs)
  obtain d l where dl: "finalProfileData supabase ?k = (d, l)"
    by (cases "finalProfileData supabase ?k")
  with l have l': "list_all is_read l" by simp
  show ?thesis
  proof (cases d)
    case (Value p)
    then show ?thesis using page_profile [OF None, of params_username p l toUpperCase] dl l'
      by (simp add: is_read_def query_verbs)
  next
    case Undefined
    then have "falsy d" by (simp add: falsy_def)
    then show ?thesis using page_not_found [OF None dl, of toUpperCase] l'
      by (simp add: is_read_def)
  next
    case Null
    then have "falsy d" by (simp add: falsy_def)
    then show ?thesis using page_not_found [OF None dl, of toUpperCase] l'
      by (simp add: is_read_def)
  qed
qed

theorem only_reads_witness:
  "list_all is_read
     (snd (UserProfilePage (map ascii_upper) (db_client ascii_lower None example_db) (js ''bob'')))"
  using only_reads [of "map ascii_upper" "db_client ascii_lower None example_db" "js ''bob''"]
  by simp

subsection \<open>The example requests, run\<close>

lemmas query_defs = exactQuery_def caseInsensitiveQuery_def resourcesQuery_def
  studyGroupsQuery_def maybeSingle_def eq_filter_def ilike_def select_def from_table_def
  order_by_def limit_def

lemma key_janedoe: "cleanUsername (js ''@janedoe '') = js ''janedoe''"
  by (simp add: cleanUsername_def startsWith_def substring_from_def trim_def js_def
      isWhiteSpace_def)

lemma key_bob: "cleanUsername (js ''bob'') = js ''bob''"
  by (simp add: cleanUsername_def startsWith_def substring_from_def trim_def js_def
      isWhiteSpace_def)

lemma example_session: "auth_getSession (db_client ascii_lower None example_db) = None"
  by (simp add: db_client_def)

lemma jane_exact:
  "data (run_profile (db_client ascii_lower None example_db) (exactQuery (js ''janedoe''))) = Null"
  by (simp add: db_client_def example_db_def jane_def bob_def query_defs well_formed_def
      select_rows_def zero_or_one_def profile_column_def text_column_def js_def)

lemma jane_fallback:
  "data (run_profile (db_client ascii_lower None example_db) (caseInsensitiveQuery (js ''janedoe'')))
   = Value jane"
  by (simp add: db_client_def example_db_def jane_def bob_def query_defs well_formed_def
      select_rows_def zero_or_one_def profile_column_def text_column_def js_def ascii_lower_def)

lemma bob_exact:
  "data (run_profile (db_client ascii_lower None example_db) (exactQuery (js ''bob''))) = Value bob"
  by (simp add: db_client_def example_db_def jane_def bob_def query_defs well_formed_def
      select_rows_def zero_or_one_def profile_column_def text_column_def js_def)

lemma jane_found:
  "finalProfileData (db_client ascii_lower None example_db) (js ''janedoe'')
     = (Value jane, [Run (exactQuery (js ''janedoe'')), Run (caseInsensitiveQuery (js ''janedoe''))])"
  by (simp add: finalProfileData_eq jane_exact jane_fallback falsy_def)

lemma bob_found:
  "finalProfileData (db_client ascii_lower None example_db) (js ''bob'')
     = (Value bob, [Run (exactQuery (js ''bob''))])"
  by (simp add: finalProfileData_eq bob_exact falsy_def)

lemma jane_resources:
  "data (run_resources (db_client ascii_lower None example_db) (resourcesQuery 1))
     = Value (shown (resources_tab jane_view))"
  by (simp add: db_client_def example_db_def example_resources_def query_defs well_formed_def
      select_rows_def many_rows_def resource_column_def order_key_def jane_view_def shown_def)

lemma jane_groups:
  "data (run_study_groups (db_client ascii_lower None example_db) (studyGroupsQuery 1))
     = Value (shown (studyGroups_tab jane_view))"
  by (simp add: db_client_def example_db_def example_groups_def query_defs well_formed_def
      select_rows_def many_rows_def study_group_column_def order_key_def jane_view_def shown_def)

lemma bob_resources:
  "data (run_resources (db_client ascii_lower None example_db) (resourcesQuery 2))
     = Value (shown (resources_tab bob_view))"
  by (simp add: db_client_def example_db_def example_resources_def query_defs well_formed_def
      select_rows_def many_rows_def resource_column_def order_key_def bob_view_def shown_def)

lemma bob_groups:
  "data (run_study_groups (db_client ascii_lower None example_db) (studyGroupsQuery 2)) = Value []"
  by (simp add: db_client_def example_db_def example_groups_def query_defs well_formed_def
      select_rows_def many_rows_def study_group_column_def order_key_def)

lemma jane_page:
  "UserProfilePage (map ascii_upper) (db_client ascii_lower None example_db) (js ''@janedoe '')
     = (ProfileView jane_view, jane_calls)"
proof -
  have f: "finalProfileData (db_client ascii_lower None example_db)
             (cleanUsername (js ''@janedoe ''))
           = (Value jane, [Run (exactQuery (js ''janedoe'')),
                           Run (caseInsensitiveQuery (js ''janedoe''))])"
    by (simp only: key_janedoe jane_found)
  have i: "profile_id jane = 1" by (simp add: jane_def)
  show ?thesis
    unfolding page_profile [OF example_session f] i jane_resources jane_groups
    by (simp add: jane_view_def jane_calls_def tab_def with_default_def shown_def)
qed

lemma bob_page:
  "UserProfilePage (map ascii_upper) (db_client ascii_lower None example_db) (js ''bob'')
     = (ProfileView bob_view, bob_calls)"
proof -
  have f: "finalProfileData (db_client ascii_lower None example_db) (cleanUsername (js ''bob''))
           = (Value bob, [Run (exactQuery (js ''bob''))])"
    by (simp only: key_bob bob_found)
  have i: "profile_id bob = 2" by (simp add: bob_def)
  show ?thesis
    unfolding page_profile [OF example_session f] i bob_resources bob_groups
    by (simp add: bob_view_def bob_calls_def tab_def with_default_def shown_def)
qed


subsection \<open>C7: a failed query looks like an empty one\<close>

lemma tab_same_rows:
  "same_rows d d' \<Longrightarrow> tab n (with_default [] d) = tab n (with_default [] d')"
  by (cases d; cases d') (auto simp: same_rows_def no_rows_def tab_def with_default_def)

lemma finalProfileData_same:
  assumes "\<forall>q. same_row (data (run_profile c q)) (data (run_profile c' q))"
  shows "same_row (fst (finalProfileData c k)) (fst (finalProfileData c' k))
         \<and> snd (finalProfileData c k) = snd (finalProfileData c' k)"
proof -
  have e: "same_row (data (run_profile c (exactQuery k))) (data (run_profile c' (exactQuery k)))"
    using assms by blast
  have i: "same_row (data (run_profile c (caseInsensitiveQuery k)))
             (data (run_profile c' (caseInsensitiveQuery k)))"
    using assms by blast
  show ?thesis
  proof (cases "falsy (data (run_profile c (exactQuery k)))")
    case True
    then have "falsy (data (run_profile c' (exactQuery k)))"
      using e by (auto simp: same_row_def)
    with True i show ?thesis by (simp add: finalProfileData_eq)
  next
    case False
    then have "data (run_profile c' (exactQuery k)) = data (run_profile c (exactQuery k))"
      using e by (auto simp: same_row_def)
    with False show ?thesis by (simp add: finalProfileData_eq same_row_def)
  qed
qed

text \<open>
  C7: the page never reads the \<open>error\<close> member of a response. If two clients report
  the same session and their answers carry the same data (a failed query carries none,
  like a query that found nothing), the page returns the same view and sends the same
  requests: a failure of the profile lookup, of the resource query or of the study-group
  query cannot be told from an empty result.
\<close>

theorem errors_never_inspected:
  assumes s: "auth_getSession c = auth_getSession c'"
    and p: "\<forall>q. same_row (data (run_profile c q)) (data (run_profile c' q))"
    and r: "\<forall>q. same_rows (data (run_resources c q)) (data (run_resources c' q))"
    and g: "\<forall>q. same_rows (data (run_study_groups c q)) (data (run_study_groups c' q))"
  shows "UserProfilePage toUpperCase c params_username
         = UserProfilePage toUpperCase c' params_username"
proof (cases "auth_getSession c")
  case (Some x)
  then show ?thesis using s by (simp add: page_redirect)
next
  case None
  then have None': "auth_getSession c' = None" using s by simp
  let ?k = "cleanUsername params_username"
  obtain d l where dl: "finalProfileData c ?k = (d, l)"
    by (cases "finalProfileData c ?k")
  obtain d' l' where dl': "finalProfileData c' ?k = (d', l')"
    by (cases "finalProfileData c' ?k")
  have sd: "same_row d d'" and ll: "l' = l"
    using finalProfileData_same [OF p, of ?k] dl dl' by simp_all
  show ?thesis
  proof (cases "falsy d")
    case True
    then have "falsy d'" using sd by (auto simp: same_row_def)
    then show ?thesis
      using page_not_found [OF None dl True] page_not_found [OF None' dl'] ll by simp
  next
    case False
    then obtain x where x: "d = Value x" by (cases d) (simp_all add: falsy_def)
    then have x': "d' = Value x" using sd by (auto simp: same_row_def falsy_def)
    have a: "tab n (with_default [] (data (run_resources c q)))
             = tab n (with_default [] (data (run_resources c' q)))" for n q
      using r by (simp add: tab_same_rows)
    have b: "tab n (with_default [] (data (run_study_groups c q)))
             = tab n (with_default [] (data (run_study_groups c' q)))" for n q
      using g by (simp add: tab_same_rows)
    show ?thesis
      using page_profile [OF None dl [unfolded x]] page_profile [OF None' dl' [unfolded x']] ll
      by (simp add: a b)
  qed
qed

theorem errors_never_inspected_witness:
  "error (run_profile failing_client (exactQuery (js ''bob''))) \<noteq> None
   \<and> error (run_profile empty_client (exactQuery (js ''bob''))) = None
   \<and> UserProfilePage (map ascii_upper) failing_client (js ''bob'')
     = UserProfilePage (map ascii_upper) empty_client (js ''bob'')"
proof -
  have a: "auth_getSession failing_client = auth_getSession empty_client"
    by (simp add: failing_client_def empty_client_def)
  have b: "\<forall>q. same_row (data (run_profile failing_client q)) (data (run_profile empty_client q))"
    by (simp add: failing_client_def empty_client_def failed_def same_row_def)
  have c: "\<forall>q. same_rows (data (run_resources failing_client q))
                  (data (run_resources empty_client q))"
    by (simp add: failing_client_def empty_client_def failed_def same_rows_def no_rows_def)
  have d: "\<forall>q. same_rows (data (run_study_groups failing_client q))
                  (data (run_study_groups empty_client q))"
    by (simp add: failing_client_def empty_client_def failed_def same_rows_def no_rows_def)
  show ?thesis
    using errors_never_inspected [OF a b c d, of "map ascii_upper" "js ''bob''"]
    by (simp add: failing_client_def empty_client_def failed_def)
qed

subsection \<open>C8: the header of a resolved profile\<close>

text \<open>
  C8: for the resolved profile row, the display name is \<open>full_name\<close>, or \<open>username\<close>
  when \<open>full_name\<close> is empty or absent; the avatar fallback is the upper-cased first two
  code units of that same name (of the empty string when both are absent); and the
  university, major and bio lines are left out exactly when their field is empty or
  absent, and show the field otherwise.
\<close>

theorem header_fields:
  assumes "UserProfilePage toUpperCase supabase params_username = (ProfileView v, calls)"
  shows "\<exists>p. fst (finalProfileData supabase (cleanUsername params_username)) = Value p
     \<and> display_name (header v)
         = (if full_name p = None \<or> full_name p = Some [] then username p else full_name p)
     \<and> avatar_fallback (header v)
         = toUpperCase (take 2 (child_text
             (if full_name p = None \<or> full_name p = Some [] then username p else full_name p)))
     \<and> (university_line (header v) = None) = (university p = None \<or> university p = Some [])
     \<and> (major_line (header v) = None) = (major p = None \<or> major p = Some [])
     \<and> (bio_line (header v) = None) = (bio p = None \<or> bio p = Some [])
     \<and> (\<forall>s. university p = Some s \<and> s \<noteq> []
            \<longrightarrow> university_line (header v) = Some (js ''University:'', s))
     \<and> (\<forall>s. major p = Some s \<and> s \<noteq> [] \<longrightarrow> major_line (header v) = Some (js ''Major:'', s))
     \<and> (\<forall>s. bio p = Some s \<and> s \<noteq> [] \<longrightarrow> bio_line (header v) = Some s)"
proof -
  from page_profile_inv [OF assms] obtain p l where
    f: "finalProfileData supabase (cleanUsername params_username) = (Value p, l)"
    and v: "header v = profile_header toUpperCase p"
    by auto
  have "fst (finalProfileData supabase (cleanUsername params_username)) = Value p"
    using f by simp
  moreover have "display_name (header v)
         = (if full_name p = None \<or> full_name p = Some [] then username p else full_name p)"
    by (auto simp: v profile_header_def js_or_def truthy_def split: option.splits)
  moreover have "avatar_fallback (header v)
         = toUpperCase (take 2 (child_text
             (if full_name p = None \<or> full_name p = Some [] then username p else full_name p)))"
    by (auto simp: v profile_header_def js_or_def js_or_str_def truthy_def child_text_def
        substring_def split: option.splits)
  moreover have "(university_line (header v) = None) = (university p = None \<or> university p = Some [])"
    by (auto simp: v profile_header_def conditional_line_def split: option.splits)
  moreover have "(major_line (header v) = None) = (major p = None \<or> major p = Some [])"
    by (auto simp: v profile_header_def conditional_line_def split: option.splits)
  moreover have "(bio_line (header v) = None) = (bio p = None \<or> bio p = Some [])"
    by (auto simp: v profile_header_def split: option.splits)
  moreover have "\<forall>s. university p = Some s \<and> s \<noteq> []
            \<longrightarrow> university_line (header v) = Some (js ''University:'', s)"
    by (simp add: v profile_header_def conditional_line_def)
  moreover have "\<forall>s. major p = Some s \<and> s \<noteq> [] \<longrightarrow> major_line (header v) = Some (js ''Major:'', s)"
    by (simp add: v profile_header_def conditional_line_def)
  moreover have "\<forall>s. bio p = Some s \<and> s \<noteq> [] \<longrightarrow> bio_line (header v) = Some s"
    by (simp add: v profile_header_def)
  ultimately show ?thesis by - (rule exI [of _ p], intro conjI, assumption+)
qed

theorem header_fields_witness:
  "UserProfilePage (map ascii_upper) (db_client ascii_lower None example_db) (js ''@janedoe '')
     = (ProfileView jane_view, jane_calls)
   \<and> display_name (header jane_view) = Some (js ''jane d'')
   \<and> avatar_fallback (header jane_view) = js ''JA''
   \<and> university_line (header jane_view) = Some (js ''University:'', js ''MIT'')
   \<and> major_line (header jane_view) = Some (js ''Major:'', js ''CS'')
   \<and> bio_line (header jane_view) = Some (js ''hi'')
   \<and> UserProfilePage (map ascii_upper) (db_client ascii_lower None example_db) (js ''bob'')
     = (ProfileView bob_view, bob_calls)
   \<and> display_name (header bob_view) = Some (js ''bob'')
   \<and> avatar_fallback (header bob_view) = js ''BO''
   \<and> university_line (header bob_view) = None
   \<and> major_line (header bob_view) = None
   \<and> bio_line (header bob_view) = None"
proof -
  let ?c = "db_client ascii_lower None example_db"
  from header_fields [OF jane_page] obtain p where
    p: "fst (finalProfileData ?c (cleanUsername (js ''@janedoe ''))) = Value p"
    and ph: "display_name (header jane_view)
         = (if full_name p = None \<or> full_name p = Some [] then username p else full_name p)"
     "avatar_fallback (header jane_view)
         = map ascii_upper (take 2 (child_text
             (if full_name p = None \<or> full_name p = Some [] then username p else full_name p)))"
     "\<forall>s. university p = Some s \<and> s \<noteq> []
            \<longrightarrow> university_line (header jane_view) = Some (js ''University:'', s)"
     "\<forall>s. major p = Some s \<and> s \<noteq> [] \<longrightarrow> major_line (header jane_view) = Some (js ''Major:'', s)"
     "\<forall>s. bio p = Some s \<and> s \<noteq> [] \<longrightarrow> bio_line (header jane_view) = Some s"
    by blast
  have pj: "p = jane" using p by (simp add: key_janedoe jane_found)
  from header_fields [OF bob_page] obtain q where
    q: "fst (finalProfileData ?c (cleanUsername (js ''bob''))) = Value q"
    and qh: "display_name (header bob_view)
         = (if full_name q = None \<or> full_name q = Some [] then username q else full_name q)"
     "avatar_fallback (header bob_view)
         = map ascii_upper (take 2 (child_text
             (if full_name q = None \<or> full_name q = Some [] then username q else full_name q)))"
     "(university_line (header bob_view) = None) = (university q = None \<or> university q = Some [])"
     "(major_line (header bob_view) = None) = (major q = None \<or> major q = Some [])"
     "(bio_line (header bob_view) = None) = (bio q = None \<or> bio q = Some [])"
    by (elim exE conjE) (rule that, assumption+)
  have qb: "q = bob" using q by (simp add: key_bob bob_found)
  show ?thesis
    using ph [unfolded pj] qh [unfolded qb] jane_page bob_page
    by (simp add: jane_def bob_def js_def child_text_def ascii_upper_def)
qed

subsection \<open>C10: the handle is the stored username\<close>

text \<open>
  C10: the handle line of a rendered profile is @ followed by the \<open>username\<close> field of
  the row the store returned (from the exact lookup, or from the case-insensitive lookup
  when the exact one gave no row), not the key that was requested: a profile found by the
  fallback is shown in its stored casing.
\<close>

theorem handle_shows_stored_username:
  assumes "UserProfilePage toUpperCase supabase params_username = (ProfileView v, calls)"
  shows "\<exists>p. (data (run_profile supabase (exactQuery (cleanUsername params_username))) = Value p
             \<or> (falsy (data (run_profile supabase (exactQuery (cleanUsername params_username))))
                \<and> data (run_profile supabase (caseInsensitiveQuery (cleanUsername params_username)))
                    = Value p))
     \<and> handle (header v) = js ''@'' @ child_text (username p)"
proof -
  from page_profile_inv [OF assms] obtain p l where
    f: "finalProfileData supabase (cleanUsername params_username) = (Value p, l)"
    and v: "header v = profile_header toUpperCase p"
    by auto
  have "handle (header v) = js ''@'' @ child_text (username p)"
    by (simp add: v profile_header_def)
  moreover have "data (run_profile supabase (exactQuery (cleanUsername params_username))) = Value p
             \<or> (falsy (data (run_profile supabase (exactQuery (cleanUsername params_username))))
                \<and> data (run_profile supabase (caseInsensitiveQuery (cleanUsername params_username)))
                    = Value p)"
    using f by (auto simp: finalProfileData_eq split: if_splits)
  ultimately show ?thesis by blast
qed

theorem handle_shows_stored_username_witness:
  "UserProfilePage (map ascii_upper) (db_client ascii_lower None example_db) (js ''@janedoe '')
     = (ProfileView jane_view, jane_calls)
   \<and> handle (header jane_view) = js ''@JaneDoe''"
proof -
  let ?c = "db_client ascii_lower None example_db"
  from handle_shows_stored_username [OF jane_page] obtain p where
    p: "data (run_profile ?c (exactQuery (cleanUsername (js ''@janedoe '')))) = Value p
        \<or> (falsy (data (run_profile ?c (exactQuery (cleanUsername (js ''@janedoe '')))))
           \<and> data (run_profile ?c (caseInsensitiveQuery (cleanUsername (js ''@janedoe ''))))
              = Value p)"
    and h: "handle (header jane_view) = js ''@'' @ child_text (username p)"
    by blast
  have "p = jane" using p by (simp add: key_janedoe jane_exact jane_fallback)
  with h show ?thesis using jane_page
    by (simp add: jane_def js_def child_text_def)
qed

subsection \<open>The queries of the page on stored tables\<close>



lemma resource_columns:
  "resource_column r ''author_id'' = Some (JNum (author_id r))"
  "resource_column r ''is_approved'' = Some (JBool (is_approved r))"
  by (simp_all add: resource_column_def)

lemma study_group_columns:
  "study_group_column g ''created_by'' = Some (JNum (created_by g))"
  "study_group_column g ''is_private'' = Some (JBool (is_private g))"
  by (simp_all add: study_group_column_def)



lemma resource_order_key: "order_key resource_column ''created_at'' = resource_created_at"
  by (rule ext) (simp add: order_key_def resource_column_def)

lemma study_group_order_key: "order_key study_group_column ''created_at'' = group_created_at"
  by (rule ext) (simp add: order_key_def study_group_column_def)

lemma db_resources:
  "data (run_resources (db_client lower s db) (resourcesQuery i))
     = Value (take 3 (rev (sort_key resource_created_at
         (filter (\<lambda>r. author_id r = i \<and> is_approved r) (resources db)))))"
proof -
  show ?thesis
    by (simp add: db_client_def query_defs well_formed_def select_rows_def many_rows_def
        resource_columns resource_order_key)
qed

lemma db_study_groups:
  "data (run_study_groups (db_client lower s db) (studyGroupsQuery i))
     = Value (take 3 (rev (sort_key group_created_at
         (filter (\<lambda>g. created_by g = i \<and> \<not> is_private g) (study_groups db)))))"
proof -
  show ?thesis
    by (simp add: db_client_def query_defs well_formed_def select_rows_def many_rows_def
        study_group_columns study_group_order_key)
qed

lemma shown_tab: "shown (tab n (with_default [] (Value rs))) = rs"
  by (simp add: shown_def tab_def with_default_def)

lemma newest_first:
  "sorted_wrt (\<ge>) (map f (take n (rev (sort_key f xs))))"
proof -
  have "sorted (map f (sort_key f xs))" by (rule sorted_sort_key)
  then have "sorted_wrt (\<ge>) (rev (map f (sort_key f xs)))"
    by (simp add: sorted_wrt_rev)
  then have "sorted_wrt (\<ge>) (take n (rev (map f (sort_key f xs))))"
    by (rule sorted_wrt_take)
  then show ?thesis by (simp add: take_map rev_map)
qed

lemma set_limited:
  "set (take n (rev (sort_key f (filter P xs)))) \<subseteq> {x \<in> set xs. P x}"
proof -
  have "set (take n (rev (sort_key f (filter P xs)))) \<subseteq> set (rev (sort_key f (filter P xs)))"
    by (rule set_take_subset)
  then show ?thesis by auto
qed

subsection \<open>C5: the resources shown\<close>

text \<open>
  C5: on the table-backed client, the resources in the rendered view of a resolved
  profile are at most 3 stored rows, each with \<open>author_id\<close> equal to the profile's id
  and \<open>is_approved\<close> true, in descending order of \<open>created_at\<close>.
\<close>

theorem resources_tab_rows:
  assumes "UserProfilePage toUpperCase (db_client lower s db) params_username
           = (ProfileView v, calls)"
  shows "\<exists>p. fst (finalProfileData (db_client lower s db) (cleanUsername params_username))
              = Value p
     \<and> length (shown (resources_tab v)) \<le> 3
     \<and> (\<forall>r \<in> set (shown (resources_tab v)).
           r \<in> set (resources db) \<and> author_id r = profile_id p \<and> is_approved r)
     \<and> sorted_wrt (\<ge>) (map resource_created_at (shown (resources_tab v)))"
proof -
  from page_profile_inv [OF assms] obtain p l where
    f: "finalProfileData (db_client lower s db) (cleanUsername params_username) = (Value p, l)"
    and v: "resources_tab v = tab (js ''No public resources available'')
       (with_default [] (data (run_resources (db_client lower s db)
          (resourcesQuery (profile_id p)))))"
    by auto
  let ?rs = "take 3 (rev (sort_key resource_created_at
         (filter (\<lambda>r. author_id r = profile_id p \<and> is_approved r) (resources db))))"
  have sh: "shown (resources_tab v) = ?rs"
    by (simp only: v db_resources shown_tab)
  have "fst (finalProfileData (db_client lower s db) (cleanUsername params_username)) = Value p"
    using f by simp
  moreover have "length (shown (resources_tab v)) \<le> 3"
    unfolding sh by simp
  moreover have "\<forall>r \<in> set (shown (resources_tab v)).
           r \<in> set (resources db) \<and> author_id r = profile_id p \<and> is_approved r"
    unfolding sh using set_limited [of 3 resource_created_at
        "\<lambda>r. author_id r = profile_id p \<and> is_approved r" "resources db"]
    by blast
  moreover have "sorted_wrt (\<ge>) (map resource_created_at (shown (resources_tab v)))"
    unfolding sh by (rule newest_first)
  ultimately show ?thesis by - (rule exI [of _ p], intro conjI, assumption+)
qed

theorem resources_tab_rows_witness:
  "UserProfilePage (map ascii_upper) (db_client ascii_lower None example_db) (js ''@janedoe '')
     = (ProfileView jane_view, jane_calls)
   \<and> length (shown (resources_tab jane_view)) = 3
   \<and> list_all (\<lambda>r. r \<in> set (resources example_db) \<and> author_id r = profile_id jane
                    \<and> is_approved r) (shown (resources_tab jane_view))
   \<and> map resource_created_at (shown (resources_tab jane_view)) = [40, 30, 20]"
proof -
  let ?c = "db_client ascii_lower None example_db"
  from resources_tab_rows [OF jane_page] obtain p where
    p: "fst (finalProfileData ?c (cleanUsername (js ''@janedoe ''))) = Value p"
    and a: "\<forall>r \<in> set (shown (resources_tab jane_view)).
           r \<in> set (resources example_db) \<and> author_id r = profile_id p \<and> is_approved r"
    by blast
  have "p = jane" using p by (simp add: key_janedoe jane_found)
  with a have b: "list_all (\<lambda>r. r \<in> set (resources example_db) \<and> author_id r = profile_id jane
                    \<and> is_approved r) (shown (resources_tab jane_view))"
    by (simp add: list_all_iff)
  have c: "length (shown (resources_tab jane_view)) = 3"
    by (simp add: jane_view_def shown_def)
  have d: "map resource_created_at (shown (resources_tab jane_view)) = [40, 30, 20]"
    by (simp add: jane_view_def shown_def)
  show ?thesis using jane_page c b d by - (intro conjI, assumption+)
qed

subsection \<open>C6: the study groups shown\<close>

text \<open>
  C6: on the table-backed client, the study groups in the rendered view of a resolved
  profile are at most 3 stored rows, each with \<open>created_by\<close> equal to the profile's id
  and \<open>is_private\<close> false, in descending order of \<open>created_at\<close>.
\<close>

theorem study_groups_tab_rows:
  assumes "UserProfilePage toUpperCase (db_client lower s db) params_username
           = (ProfileView v, calls)"
  shows "\<exists>p. fst (finalProfileData (db_client lower s db) (cleanUsername params_username))
              = Value p
     \<and> length (shown (studyGroups_tab v)) \<le> 3
     \<and> (\<forall>g \<in> set (shown (studyGroups_tab v)).
           g \<in> set (study_groups db) \<and> created_by g = profile_id p \<and> \<not> is_private g)
     \<and> sorted_wrt (\<ge>) (map group_created_at (shown (studyGroups_tab v)))"
proof -
  from page_profile_inv [OF assms] obtain p l where
    f: "finalProfileData (db_client lower s db) (cleanUsername params_username) = (Value p, l)"
    and v: "studyGroups_tab v = tab (js ''No public study groups available'')
       (with_default [] (data (run_study_groups (db_client lower s db)
          (studyGroupsQuery (profile_id p)))))"
    by auto
  let ?gs = "take 3 (rev (sort_key group_created_at
         (filter (\<lambda>g. created_by g = profile_id p \<and> \<not> is_private g) (study_groups db))))"
  have sh: "shown (studyGroups_tab v) = ?gs"
    by (simp only: v db_study_groups shown_tab)
  have "fst (finalProfileData (db_client lower s db) (cleanUsername params_username)) = Value p"
    using f by simp
  moreover have "length (shown (studyGroups_tab v)) \<le> 3"
    unfolding sh by simp
  moreover have "\<forall>g \<in> set (shown (studyGroups_tab v)).
           g \<in> set (study_groups db) \<and> created_by g = profile_id p \<and> \<not> is_private g"
    unfolding sh using set_limited [of 3 group_created_at
        "\<lambda>g. created_by g = profile_id p \<and> \<not> is_private g" "study_groups db"]
    by blast
  moreover have "sorted_wrt (\<ge>) (map group_created_at (shown (studyGroups_tab v)))"
    unfolding sh by (rule newest_first)
  ultimately show ?thesis by - (rule exI [of _ p], intro conjI, assumption+)
qed

theorem study_groups_tab_rows_witness:
  "UserProfilePage (map ascii_upper) (db_client ascii_lower None example_db) (js ''@janedoe '')
     = (ProfileView jane_view, jane_calls)
   \<and> length (shown (studyGroups_tab jane_view)) = 3
   \<and> list_all (\<lambda>g. g \<in> set (study_groups example_db) \<and> created_by g = profile_id jane
                    \<and> \<not> is_private g) (shown (studyGroups_tab jane_view))
   \<and> map group_created_at (shown (studyGroups_tab jane_view)) = [8, 7, 5]"
proof -
  let ?c = "db_client ascii_lower None example_db"
  from study_groups_tab_rows [OF jane_page] obtain p where
    p: "fst (finalProfileData ?c (cleanUsername (js ''@janedoe ''))) = Value p"
    and a: "\<forall>g \<in> set (shown (studyGroups_tab jane_view)).
           g \<in> set (study_groups example_db) \<and> created_by g = profile_id p \<and> \<not> is_private g"
    by blast
  have "p = jane" using p by (simp add: key_janedoe jane_found)
  with a have b: "list_all (\<lambda>g. g \<in> set (study_groups example_db) \<and> created_by g = profile_id jane
                    \<and> \<not> is_private g) (shown (studyGroups_tab jane_view))"
    by (simp add: list_all_iff)
  have c: "length (shown (studyGroups_tab jane_view)) = 3"
    by (simp add: jane_view_def shown_def)
  have d: "map group_created_at (shown (studyGroups_tab jane_view)) = [8, 7, 5]"
    by (simp add: jane_view_def shown_def)
  show ?thesis using jane_page c b d by - (intro conjI, assumption+)
qed

subsection \<open>C2: exact lookup first, fallback only on a miss\<close>








end
